theory Spec2Isabelle
  imports Main
begin

section \<open>The declaration surface of \<^verbatim>\<open>src/libvaqua/JavaWindowAccess.h\<close>\<close>

text \<open>
  The repository's only source file is a 15-line Objective-C header. It has no function
  body, so there is nothing to embed as a HOL function; what it does have is a sequence
  of top-level items (comments, imports, prototypes). That sequence is written down
  here item by item, in the order of the file, so that the statements about the shape
  of the interface are statements about this value.
\<close>

datatype ctype =
    Named string
  | Pointer ctype

record param =
  ptype :: ctype
  pname :: string

record prototype =
  ret :: ctype
  fname :: string
  params :: "param list"

text \<open>
  Statements of a function body. The header has no body, so no value of this type occurs
  in it; the type is here so that "no control flow" is a statement about something.
\<close>

datatype stmt =
    Expression string
  | Return string
  | Conditional string "stmt list" "stmt list"
  | Loop string "stmt list"

datatype item =
    BlockComment "string list"
  | LineComment string
  | Import string
  | FunctionDeclaration prototype
  | FunctionDefinition prototype "stmt list"
  | TypeDefinition string
  | VariableDefinition ctype string

definition getJavaWindow_decl :: prototype where
  "getJavaWindow_decl =
     \<lparr> ret = Named ''jobject'', fname = ''getJavaWindow'',
       params = [\<lparr> ptype = Pointer (Named ''JNIEnv''), pname = ''env'' \<rparr>,
                 \<lparr> ptype = Pointer (Named ''NSWindow''), pname = ''w'' \<rparr>] \<rparr>"

definition getJavaPlatformWindow_decl :: prototype where
  "getJavaPlatformWindow_decl =
     \<lparr> ret = Named ''jobject'', fname = ''getJavaPlatformWindow'',
       params = [\<lparr> ptype = Pointer (Named ''JNIEnv''), pname = ''env'' \<rparr>,
                 \<lparr> ptype = Pointer (Named ''NSWindow''), pname = ''w'' \<rparr>] \<rparr>"

definition JavaWindowAccess_h :: "item list" where
  "JavaWindowAccess_h =
     [ \<comment> \<open>lines 1-7\<close>
       BlockComment
         [''Copyright (c) 2018-2020 Alan Snyder.'',
          ''All rights reserved.'',
          '''',
          ''You may not use, copy or modify this file, except in compliance with the license agreement. For details see'',
          ''accompanying license terms.''],
       \<comment> \<open>line 9\<close>
       LineComment
         ''Support for mapping a native window to a Java window or a Java platform window (CPlatformWindow).'',
       \<comment> \<open>lines 11-12\<close>
       Import ''Cocoa/Cocoa.h'',
       Import ''jni.h'',
       \<comment> \<open>lines 14-15\<close>
       FunctionDeclaration getJavaWindow_decl,
       FunctionDeclaration getJavaPlatformWindow_decl ]"

text \<open>The source files of the repository, by path.\<close>

definition sources :: "(string \<times> item list) list" where
  "sources = [(''src/libvaqua/JavaWindowAccess.h'', JavaWindowAccess_h)]"

subsection \<open>Reading the items of a file\<close>

fun declarations :: "item list \<Rightarrow> prototype list" where
  "declarations [] = []"
| "declarations (FunctionDeclaration p # is) = p # declarations is"
| "declarations (_ # is) = declarations is"

fun definitions :: "item list \<Rightarrow> (prototype \<times> stmt list) list" where
  "definitions [] = []"
| "definitions (FunctionDefinition p b # is) = (p, b) # definitions is"
| "definitions (_ # is) = definitions is"

fun imports_of :: "item list \<Rightarrow> string list" where
  "imports_of [] = []"
| "imports_of (Import h # is) = h # imports_of is"
| "imports_of (_ # is) = imports_of is"

fun type_definitions :: "item list \<Rightarrow> string list" where
  "type_definitions [] = []"
| "type_definitions (TypeDefinition n # is) = n # type_definitions is"
| "type_definitions (_ # is) = type_definitions is"

fun variables :: "item list \<Rightarrow> (ctype \<times> string) list" where
  "variables [] = []"
| "variables (VariableDefinition t n # is) = (t, n) # variables is"
| "variables (_ # is) = variables is"

text \<open>The branching and looping statements of a body, nested ones included.\<close>

fun control_flow :: "stmt \<Rightarrow> stmt list" where
  "control_flow (Expression e) = []"
| "control_flow (Return e) = []"
| "control_flow (Conditional c t e) =
     Conditional c t e # concat (map control_flow t) @ concat (map control_flow e)"
| "control_flow (Loop c b) = Loop c b # concat (map control_flow b)"

definition control_flow_of :: "item list \<Rightarrow> stmt list" where
  "control_flow_of is = concat (map (\<lambda>(p, b). concat (map control_flow b)) (definitions is))"

definition param_types :: "prototype \<Rightarrow> ctype list" where
  "param_types p = map ptype (params p)"

definition is_header :: "string \<Rightarrow> bool" where
  "is_header path = (take 2 (rev path) = ''h.'')"

section \<open>The two accessors\<close>

text \<open>
  The header declares \<^verbatim>\<open>getJavaWindow\<close> and \<^verbatim>\<open>getJavaPlatformWindow\<close> and
  gives neither a body; the file that implements them, the code that registers a native
  window with its peers, and \<^verbatim>\<open>jni.h\<close> are not among the sources. The
  definitions of this section are therefore written from the specification's sentences,
  each one marked so.
\<close>

text \<open>
  Modelled from the spec: the execution context handle (\<^verbatim>\<open>JNIEnv *\<close>) and the
  native window handle (\<^verbatim>\<open>NSWindow *\<close>). The spec calls both opaque handles;
  they are identities and nothing is read through them.
\<close>

type_synonym JNIEnv = nat
type_synonym NSWindow = nat

text \<open>
  Modelled from the spec: \<^verbatim>\<open>jobject\<close>, declared in \<^verbatim>\<open>jni.h\<close>, "a
  managed-runtime object handle (possibly representing "no mapping")": the null handle,
  or a handle that identifies one object of the managed runtime.
\<close>

datatype jobject =
    JNull
  | JObject nat

text \<open>
  Modelled from the spec: what an established mapping associates with a native window.
  The spec names two peers, the managed window ("Java window") and the "platform window"
  peer object; each is an object of the managed runtime.
\<close>

record peers =
  javaWindow :: nat
  javaPlatformWindow :: nat

text \<open>
  Modelled from the spec: "a registration table keyed by native window identity". How an
  entry enters or leaves the table is not in the sources and is not modelled; the
  accessors read a table that is given.
\<close>

type_synonym window_table = "NSWindow \<rightharpoonup> peers"

text \<open>
  Modelled from the spec: the body of \<^verbatim>\<open>getJavaWindow\<close> is missing. "Given an
  execution context handle and a native window handle, returns a managed-runtime object
  handle representing the corresponding managed window, or a null/absent result if no
  mapping exists."
\<close>

definition getJavaWindow :: "window_table \<Rightarrow> JNIEnv \<Rightarrow> NSWindow \<Rightarrow> jobject" where
  "getJavaWindow tbl env w =
     (case tbl w of
        None \<Rightarrow> JNull
      | Some p \<Rightarrow> JObject (javaWindow p))"

text \<open>
  Modelled from the spec: the body of \<^verbatim>\<open>getJavaPlatformWindow\<close> is missing.
  "Same contract, but returns the managed-runtime object handle representing a "platform
  window" peer object rather than the window itself."
\<close>

definition getJavaPlatformWindow :: "window_table \<Rightarrow> JNIEnv \<Rightarrow> NSWindow \<Rightarrow> jobject" where
  "getJavaPlatformWindow tbl env w =
     (case tbl w of
        None \<Rightarrow> JNull
      | Some p \<Rightarrow> JObject (javaPlatformWindow p))"

text \<open>
  Modelled from the spec: an established mapping. The glossary of the spec describes the
  platform window as "an implied secondary peer object distinct from the primary managed
  window object", so the two peers of an established mapping are two objects of the
  managed runtime and never one and the same. The code that establishes a mapping is not
  in the sources; the type takes the distinctness from the spec's words as the invariant
  of the data, it is not derived from any code.
\<close>

typedef mapping = "{p :: peers. javaWindow p \<noteq> javaPlatformWindow p}"
proof
  show "\<lparr>javaWindow = 0, javaPlatformWindow = 1\<rparr> \<in> {p :: peers. javaWindow p \<noteq> javaPlatformWindow p}"
    by simp
qed



text \<open>
  Modelled from the spec: the registration table when every entry of it is an established
  mapping, and the table the accessors read from it.
\<close>

type_synonym registry = "NSWindow \<rightharpoonup> mapping"

definition table_of :: "registry \<Rightarrow> window_table" where
  "table_of r w = map_option Rep_mapping (r w)"

section \<open>Helper facts\<close>

lemma declarations_header:
  "declarations JavaWindowAccess_h = [getJavaWindow_decl, getJavaPlatformWindow_decl]"
  by (simp add: JavaWindowAccess_h_def)

lemma definitions_header: "definitions JavaWindowAccess_h = []"
  by (simp add: JavaWindowAccess_h_def)

lemma param_types_decls:
  "param_types getJavaWindow_decl = [Pointer (Named ''JNIEnv''), Pointer (Named ''NSWindow'')]"
  "param_types getJavaPlatformWindow_decl = [Pointer (Named ''JNIEnv''), Pointer (Named ''NSWindow'')]"
  by (simp_all add: param_types_def getJavaWindow_decl_def getJavaPlatformWindow_decl_def)

lemma ret_decls:
  "ret getJavaWindow_decl = Named ''jobject''"
  "ret getJavaPlatformWindow_decl = Named ''jobject''"
  by (simp_all add: getJavaWindow_decl_def getJavaPlatformWindow_decl_def)

lemma fname_decls:
  "fname getJavaWindow_decl = ''getJavaWindow''"
  "fname getJavaPlatformWindow_decl = ''getJavaPlatformWindow''"
  by (simp_all add: getJavaWindow_decl_def getJavaPlatformWindow_decl_def)

lemma getJavaWindow_mapped: "tbl w = Some p \<Longrightarrow> getJavaWindow tbl env w = JObject (javaWindow p)"
  by (simp add: getJavaWindow_def)

lemma getJavaWindow_unmapped: "tbl w = None \<Longrightarrow> getJavaWindow tbl env w = JNull"
  by (simp add: getJavaWindow_def)


lemma getJavaPlatformWindow_unmapped: "tbl w = None \<Longrightarrow> getJavaPlatformWindow tbl env w = JNull"
  by (simp add: getJavaPlatformWindow_def)



lemma table_of_unmapped: "r w = None \<Longrightarrow> table_of r w = None"
  by (simp add: table_of_def)



section \<open>The lookup contract of the accessors\<close>

text \<open>
  C1. For every established mapping of a native window, \<^verbatim>\<open>getJavaWindow\<close> applied to
  an execution context handle and that native window handle returns the handle of the
  managed window the mapping gives; for a native window handle with no mapping it returns
  the null handle. The result does not depend on the execution context handle.
\<close>

theorem getJavaWindow_contract:
  "(tbl w = Some p \<longrightarrow> getJavaWindow tbl env w = JObject (javaWindow p)) \<and>
   (tbl w = None \<longrightarrow> getJavaWindow tbl env w = JNull)"
proof (cases "tbl w")
  case None
  then show ?thesis by (simp add: getJavaWindow_unmapped)
next
  case (Some q)
  then show ?thesis by (simp add: getJavaWindow_mapped)
qed

theorem getJavaWindow_contract_witness:
  "[7 \<mapsto> \<lparr>javaWindow = 100, javaPlatformWindow = 200\<rparr>] (7::nat) =
     Some \<lparr>javaWindow = 100, javaPlatformWindow = 200\<rparr> \<and>
   getJavaWindow [7 \<mapsto> \<lparr>javaWindow = 100, javaPlatformWindow = 200\<rparr>] 1 7 = JObject 100 \<and>
   [7 \<mapsto> \<lparr>javaWindow = 100, javaPlatformWindow = 200\<rparr>] (8::nat) = None \<and>
   getJavaWindow [7 \<mapsto> \<lparr>javaWindow = 100, javaPlatformWindow = 200\<rparr>] 1 8 = JNull"
  using
    getJavaWindow_contract [where tbl = "[7 \<mapsto> \<lparr>javaWindow = 100, javaPlatformWindow = 200\<rparr>]"
      and w = 7 and p = "\<lparr>javaWindow = 100, javaPlatformWindow = 200\<rparr>" and env = 1]
    getJavaWindow_contract [where tbl = "[7 \<mapsto> \<lparr>javaWindow = 100, javaPlatformWindow = 200\<rparr>]"
      and w = 8 and env = 1]
  by simp



text \<open>
  C3. For every native window handle that has no mapping, both accessors return: the
  result of each is the null handle. Neither definition has a failing branch, and neither
  reads anything through the window handle, so the nil window and a window that was never
  registered are treated alike.
\<close>

theorem unmapped_window_null:
  assumes "tbl w = None"
  shows "getJavaWindow tbl env w = JNull \<and> getJavaPlatformWindow tbl env w = JNull"
  using assms by (simp add: getJavaWindow_unmapped getJavaPlatformWindow_unmapped)

theorem unmapped_window_null_witness:
  "(Map.empty :: window_table) 5 = None \<and>
   getJavaWindow Map.empty 2 5 = JNull \<and> getJavaPlatformWindow Map.empty 2 5 = JNull"
proof -
  have h: "(Map.empty :: window_table) 5 = None" by simp
  from unmapped_window_null [where tbl = Map.empty and w = 5 and env = 2] h
  show ?thesis by simp
qed



section \<open>The shape of the interface\<close>

text \<open>
  C5. The interface has exactly two entry points, \<^verbatim>\<open>getJavaWindow\<close> and
  \<^verbatim>\<open>getJavaPlatformWindow\<close>: the header declares these two functions and defines
  none. Each takes exactly two parameters, the execution context handle
  (\<^verbatim>\<open>JNIEnv *\<close>) first and the native window (\<^verbatim>\<open>NSWindow *\<close>) second, and
  returns a \<^verbatim>\<open>jobject\<close>; the two have the same parameter types and the same return
  type. The null handle is a value of \<^verbatim>\<open>jobject\<close>, different from every object
  handle, so "no mapping" can be returned.
\<close>

theorem interface_two_entry_points:
  "map fname (declarations JavaWindowAccess_h) = [''getJavaWindow'', ''getJavaPlatformWindow''] \<and>
   definitions JavaWindowAccess_h = [] \<and>
   map param_types (declarations JavaWindowAccess_h) =
     [[Pointer (Named ''JNIEnv''), Pointer (Named ''NSWindow'')],
      [Pointer (Named ''JNIEnv''), Pointer (Named ''NSWindow'')]] \<and>
   map ret (declarations JavaWindowAccess_h) = [Named ''jobject'', Named ''jobject''] \<and>
   param_types getJavaWindow_decl = param_types getJavaPlatformWindow_decl \<and>
   ret getJavaWindow_decl = ret getJavaPlatformWindow_decl \<and>
   (\<forall>r. JNull \<noteq> JObject r)"
  by (simp add: declarations_header definitions_header param_types_decls ret_decls fname_decls)

text \<open>
  C7. The sources are a single header file. It declares exactly two functions and holds
  no function definition, hence no body and no branching or looping statement; it defines
  no type and no variable.
\<close>

theorem header_declares_only:
  "sources = [(''src/libvaqua/JavaWindowAccess.h'', JavaWindowAccess_h)] \<and>
   is_header ''src/libvaqua/JavaWindowAccess.h'' \<and>
   length (declarations JavaWindowAccess_h) = 2 \<and>
   definitions JavaWindowAccess_h = [] \<and>
   control_flow_of JavaWindowAccess_h = [] \<and>
   type_definitions JavaWindowAccess_h = [] \<and>
   variables JavaWindowAccess_h = []"
proof -
  have "type_definitions JavaWindowAccess_h = []" "variables JavaWindowAccess_h = []"
    by (simp_all add: JavaWindowAccess_h_def)
  moreover have "control_flow_of JavaWindowAccess_h = []"
    by (simp add: control_flow_of_def definitions_header)
  moreover have "is_header ''src/libvaqua/JavaWindowAccess.h''"
    by (simp add: is_header_def)
  ultimately show ?thesis
    by (simp add: sources_def declarations_header definitions_header)
qed

text \<open>
  C8. The header imports \<^verbatim>\<open>Cocoa/Cocoa.h\<close>, and the native window parameter (the second
  one) of both declared functions has the type \<^verbatim>\<open>NSWindow *\<close>, a pointer to Cocoa's
  window class: the native window identity is a Cocoa window, not an identifier that is
  neutral between operating systems.
\<close>

theorem native_window_is_NSWindow:
  "''Cocoa/Cocoa.h'' \<in> set (imports_of JavaWindowAccess_h) \<and>
   map (\<lambda>d. drop 1 (param_types d)) (declarations JavaWindowAccess_h) =
     [[Pointer (Named ''NSWindow'')], [Pointer (Named ''NSWindow'')]]"
proof
  show "''Cocoa/Cocoa.h'' \<in> set (imports_of JavaWindowAccess_h)"
    by (simp add: JavaWindowAccess_h_def)
  show "map (\<lambda>d. drop 1 (param_types d)) (declarations JavaWindowAccess_h) =
     [[Pointer (Named ''NSWindow'')], [Pointer (Named ''NSWindow'')]]"
    by (simp add: declarations_header param_types_decls)
qed

end
